theory Spec2Isabelle
  imports Main "HOL-Library.Word"
begin

section \<open>JavaScript strings, numbers and objects\<close>

text \<open>
  The program is \<^verbatim>\<open>lib/utapi/utilities.js\<close>. Its functions work on JavaScript strings,
  on the numbers that \<^verbatim>\<open>Number.parseInt\<close> returns and on object literals, and they call
  \<^verbatim>\<open>JSON.stringify\<close> and \<^verbatim>\<open>JSON.parse\<close>. This section models those parts of the language.

  A JavaScript string is a sequence of 16-bit code units. \<open>js\<close> turns a literal of the
  theory into such a sequence.
\<close>

type_synonym jsstring = "16 word list"

definition js :: "string \<Rightarrow> jsstring" where
  "js s = map (\<lambda>c. of_nat (of_char c)) s"

text \<open>
  An option of the command line and an optional field hold a string or \<^verbatim>\<open>undefined\<close>
  (\<open>None\<close>). In a condition, \<^verbatim>\<open>undefined\<close> and the empty string count as false.
\<close>

definition truthy :: "jsstring option \<Rightarrow> bool" where
  "truthy v = (case v of None \<Rightarrow> False | Some s \<Rightarrow> s \<noteq> [])"

subsection \<open>Number.parseInt(string, 10)\<close>

text \<open>
  \<^verbatim>\<open>parseInt\<close> turns its argument into a string (\<^verbatim>\<open>undefined\<close> becomes the string
  "undefined"), skips leading white space (the white space and the line terminators of
  the current standard), reads an optional sign and then the longest run of decimal
  digits, and ignores what follows them. Without a digit the result is \<^verbatim>\<open>NaN\<close>, here
  \<open>None\<close>.

  The result is modelled as the mathematical integer that the digits denote. The program
  holds the double nearest to it, which is the same number up to \<open>2^53\<close> and is zero
  exactly when the integer is (minus zero included), so that \<^verbatim>\<open>!numStart\<close> is decided
  alike in the program and in the model.
\<close>

definition StrWhiteSpaceChar :: "16 word \<Rightarrow> bool" where
  "StrWhiteSpaceChar c =
     (c \<in> set [0x09, 0x0A, 0x0B, 0x0C, 0x0D, 0x20, 0xA0, 0x1680, 0x2028, 0x2029,
                0x202F, 0x205F, 0x3000, 0xFEFF]
      \<or> (0x2000 \<le> c \<and> c \<le> 0x200A))"

definition is_digit :: "16 word \<Rightarrow> bool" where
  "is_digit c = (0x30 \<le> c \<and> c \<le> 0x39)"

definition digit_val :: "16 word \<Rightarrow> int" where
  "digit_val c = uint c - 48"

definition digits_value :: "jsstring \<Rightarrow> int" where
  "digits_value ds = foldl (\<lambda>n c. 10 * n + digit_val c) 0 ds"

definition parseInt10 :: "jsstring option \<Rightarrow> int option" where
  "parseInt10 v =
     (let inputString = (case v of None \<Rightarrow> js ''undefined'' | Some s \<Rightarrow> s);
          S = dropWhile StrWhiteSpaceChar inputString;
          negative = (case S of c # _ \<Rightarrow> c = 0x2D | [] \<Rightarrow> False);
          S' = (case S of c # r \<Rightarrow> if c = 0x2B \<or> c = 0x2D then r else S | [] \<Rightarrow> S);
          Z = takeWhile is_digit S'
      in if Z = [] then None
         else Some ((if negative then - 1 else 1) * digits_value Z))"

text \<open>\<^verbatim>\<open>!n\<close> for a number: true for \<^verbatim>\<open>NaN\<close> and for zero.\<close>

definition not_number :: "int option \<Rightarrow> bool" where
  "not_number n = (case n of None \<Rightarrow> True | Some i \<Rightarrow> i = 0)"

subsection \<open>String.prototype.split\<close>

text \<open>
  \<^verbatim>\<open>s.split(',')\<close> scans the string from the left: \<open>seg\<close> is the segment read since the
  last separator.
\<close>

fun split_from :: "'a \<Rightarrow> 'a list \<Rightarrow> 'a list \<Rightarrow> 'a list list" where
  "split_from sep seg [] = [seg]"
| "split_from sep seg (c # cs) =
     (if c = sep then seg # split_from sep [] cs else split_from sep (seg @ [c]) cs)"

definition split_on :: "'a \<Rightarrow> 'a list \<Rightarrow> 'a list list" where
  "split_on sep s = split_from sep [] s"

definition comma :: "16 word" where
  "comma = 0x2C"

text \<open>\<^verbatim>\<open>Array.prototype.join\<close>, on strings.\<close>

fun join :: "'a list \<Rightarrow> 'a list list \<Rightarrow> 'a list" where
  "join sep [] = []"
| "join sep [x] = x"
| "join sep (x # y # r) = x @ sep @ join sep (y # r)"

subsection \<open>Objects\<close>

text \<open>
  An object is the list of its own properties in the order in which \<^verbatim>\<open>Object.keys\<close> and
  \<^verbatim>\<open>JSON.stringify\<close> visit them: the keys that are array indices first, in ascending
  order, then the other keys in the order of their creation. An assignment
  \<^verbatim>\<open>obj[k] = v\<close> to an existing key keeps its place.
\<close>

definition array_index :: "jsstring \<Rightarrow> int option" where
  "array_index k =
     (case k of
        [] \<Rightarrow> None
      | c # r \<Rightarrow>
          if list_all is_digit k \<and> (c \<noteq> 0x30 \<or> r = []) \<and> digits_value k < 4294967295
          then Some (digits_value k) else None)"

fun obj_insert :: "jsstring \<Rightarrow> 'v \<Rightarrow> (jsstring \<times> 'v) list \<Rightarrow> (jsstring \<times> 'v) list" where
  "obj_insert k v [] = [(k, v)]"
| "obj_insert k v ((k', v') # r) =
     (case array_index k of
        None \<Rightarrow> (k', v') # obj_insert k v r
      | Some i \<Rightarrow>
          (case array_index k' of
             None \<Rightarrow> (k, v) # (k', v') # r
           | Some j \<Rightarrow> if i < j then (k, v) # (k', v') # r else (k', v') # obj_insert k v r))"

definition obj_set :: "(jsstring \<times> 'v) list \<Rightarrow> jsstring \<Rightarrow> 'v \<Rightarrow> (jsstring \<times> 'v) list" where
  "obj_set obj k v =
     (if k \<in> set (map fst obj)
      then map (\<lambda>(k', v'). if k' = k then (k', v) else (k', v')) obj
      else obj_insert k v obj)"

subsection \<open>JSON values and JSON.stringify\<close>

text \<open>
  \<open>JNum m e\<close> is the number \<open>m * 10^e\<close>. JavaScript holds the double nearest to it and
  prints the shortest decimal that denotes that double; for a nonzero number of at most
  15 significant digits and of magnitude between \<open>1e-307\<close> and \<open>1e308\<close>, and for every
  integer up to \<open>2^53\<close>, that is the number itself, printed as \<open>Number_toString\<close> does
  (the rules of \<^verbatim>\<open>Number::toString\<close>).
\<close>

datatype json =
    JNull
  | JBool bool
  | JNum int int
  | JStr jsstring
  | JArr "json list"
  | JObj "(jsstring \<times> json) list"

fun digits10 :: "nat \<Rightarrow> jsstring" where
  "digits10 n = (if n < 10 then [of_nat (48 + n)] else digits10 (n div 10) @ [of_nat (48 + n mod 10)])"

declare digits10.simps [simp del]

fun strip_zeros :: "nat \<Rightarrow> nat \<Rightarrow> nat \<times> nat" where
  "strip_zeros m z = (if m \<noteq> 0 \<and> m mod 10 = 0 then strip_zeros (m div 10) (z + 1) else (m, z))"

declare strip_zeros.simps [simp del]

definition Number_toString :: "int \<Rightarrow> int \<Rightarrow> jsstring" where
  "Number_toString m e =
     (if m = 0 then js ''0''
      else (if m < 0 then js ''-'' else []) @
        (let (s, z) = strip_zeros (nat \<bar>m\<bar>) 0;
             ds = digits10 s;
             k = int (length ds);
             n = k + int z + e
         in if k \<le> n \<and> n \<le> 21 then ds @ replicate (nat (n - k)) 0x30
            else if 0 < n \<and> n \<le> 21 then take (nat n) ds @ js ''.'' @ drop (nat n) ds
            else if - 6 < n \<and> n \<le> 0 then js ''0.'' @ replicate (nat (- n)) 0x30 @ ds
            else
              (let ex = n - 1;
                   exs = (if ex < 0 then js ''-'' else js ''+'') @ digits10 (nat \<bar>ex\<bar>)
               in if k = 1 then ds @ js ''e'' @ exs
                  else take 1 ds @ js ''.'' @ drop 1 ds @ js ''e'' @ exs)))"

text \<open>
  \<^verbatim>\<open>QuoteJSONString\<close>: the quotation mark, the backslash and the control characters are
  escaped, every other code unit is written as it is. (Since ECMAScript 2019 a surrogate
  without its partner is escaped too; the program is older, and no property below
  depends on it.)
\<close>

definition hex_digit :: "nat \<Rightarrow> 16 word" where
  "hex_digit d = (if d < 10 then of_nat (48 + d) else of_nat (87 + d))"

definition quote_unit :: "16 word \<Rightarrow> jsstring" where
  "quote_unit c =
     (if c = 0x22 then [0x5C, 0x22]
      else if c = 0x5C then [0x5C, 0x5C]
      else if c = 0x08 then [0x5C, 0x62]
      else if c = 0x0C then [0x5C, 0x66]
      else if c = 0x0A then [0x5C, 0x6E]
      else if c = 0x0D then [0x5C, 0x72]
      else if c = 0x09 then [0x5C, 0x74]
      else if c < 0x20 then [0x5C, 0x75, 0x30, 0x30, hex_digit (unat c div 16), hex_digit (unat c mod 16)]
      else [c])"

definition JSON_quote :: "jsstring \<Rightarrow> jsstring" where
  "JSON_quote s = [0x22] @ concat (map quote_unit s) @ [0x22]"

text \<open>
  \<^verbatim>\<open>SerializeJSONProperty\<close>: \<open>gap\<close> is the indentation unit (empty without the third
  argument of \<^verbatim>\<open>JSON.stringify\<close>), \<open>ind\<close> the current indentation.
\<close>

fun JSON_serialize :: "jsstring \<Rightarrow> jsstring \<Rightarrow> json \<Rightarrow> jsstring" where
  "JSON_serialize gap ind JNull = js ''null''"
| "JSON_serialize gap ind (JBool b) = (if b then js ''true'' else js ''false'')"
| "JSON_serialize gap ind (JNum m e) = Number_toString m e"
| "JSON_serialize gap ind (JStr s) = JSON_quote s"
| "JSON_serialize gap ind (JArr xs) =
     (if xs = [] then js ''[]''
      else
        (let stepback = ind;
             ind' = ind @ gap;
             partial = map (\<lambda>x. JSON_serialize gap ind' x) xs
         in if gap = [] then js ''['' @ join (js '','') partial @ js '']''
            else js ''['' @ [0x0A] @ ind' @ join (js '','' @ [0x0A] @ ind') partial
                 @ [0x0A] @ stepback @ js '']''))"
| "JSON_serialize gap ind (JObj ps) =
     (if ps = [] then js ''{}''
      else
        (let stepback = ind;
             ind' = ind @ gap;
             partial = map (\<lambda>(k, v). JSON_quote k @ js '':'' @ (if gap = [] then [] else js '' '')
                                       @ JSON_serialize gap ind' v) ps
         in if gap = [] then js ''{'' @ join (js '','') partial @ js ''}''
            else js ''{'' @ [0x0A] @ ind' @ join (js '','' @ [0x0A] @ ind') partial
                 @ [0x0A] @ stepback @ js ''}''))"

text \<open>\<^verbatim>\<open>JSON.stringify(v)\<close> and \<^verbatim>\<open>JSON.stringify(v, null, 2)\<close>.\<close>

definition JSON_stringify :: "json \<Rightarrow> jsstring" where
  "JSON_stringify v = JSON_serialize [] [] v"

definition JSON_stringify_indent2 :: "json \<Rightarrow> jsstring" where
  "JSON_stringify_indent2 v = JSON_serialize (js ''  '') [] v"

subsection \<open>JSON.parse\<close>

text \<open>
  \<^verbatim>\<open>JSON.parse\<close> reads the text into tokens and the tokens into a value; a text outside
  the JSON grammar makes it throw a \<^verbatim>\<open>SyntaxError\<close>, here the result \<open>None\<close>. Where
  a function goes on behind a token or a value that another function has read, a test
  on the length of the rest makes its termination evident; the first lemmas of the
  properties show that these tests never fail.
\<close>

datatype token =
    TLBrace | TRBrace | TLBrack | TRBrack | TColon | TComma
  | TNull | TTrue | TFalse
  | TStr jsstring
  | TNum int int

definition hex_val :: "16 word \<Rightarrow> int option" where
  "hex_val c =
     (if 0x30 \<le> c \<and> c \<le> 0x39 then Some (uint c - 48)
      else if 0x61 \<le> c \<and> c \<le> 0x66 then Some (uint c - 87)
      else if 0x41 \<le> c \<and> c \<le> 0x46 then Some (uint c - 55)
      else None)"

text \<open>
  An escape sequence, read from behind its backslash: the code unit it denotes and the
  text behind it.
\<close>

definition lex_escape :: "jsstring \<Rightarrow> (16 word \<times> jsstring) option" where
  "lex_escape s =
     (case s of
        [] \<Rightarrow> None
      | e # cs \<Rightarrow>
          if e = 0x22 \<or> e = 0x5C \<or> e = 0x2F then Some (e, cs)
          else if e = 0x62 then Some (0x08, cs)
          else if e = 0x66 then Some (0x0C, cs)
          else if e = 0x6E then Some (0x0A, cs)
          else if e = 0x72 then Some (0x0D, cs)
          else if e = 0x74 then Some (0x09, cs)
          else if e = 0x75 then
            (case those (map hex_val (take 4 cs)) of
               None \<Rightarrow> None
             | Some ds \<Rightarrow>
                 if length ds = 4
                 then Some (of_int (foldl (\<lambda>n d. 16 * n + d) 0 ds), drop 4 cs)
                 else None)
          else None)"

text \<open>
  A string token, read from behind its opening quotation mark: \<open>acc\<close> is the string read
  so far. The result is the string and the text behind the closing quotation mark.
\<close>

function lex_string :: "jsstring \<Rightarrow> jsstring \<Rightarrow> (jsstring \<times> jsstring) option" where
  "lex_string acc [] = None"
| "lex_string acc (c # cs) =
     (if c = 0x22 then Some (acc, cs)
      else if c < 0x20 then None
      else if c \<noteq> 0x5C then lex_string (acc @ [c]) cs
      else
        (case lex_escape cs of
           None \<Rightarrow> None
         | Some (u, rest) \<Rightarrow>
             if length rest < length cs then lex_string (acc @ [u]) rest else None))"
  by pat_completeness auto
termination
  by (relation "measure (\<lambda>(acc, s). length s)") auto

text \<open>
  A number token: an optional minus sign, the integer part (a single zero, or digits that
  do not start with a zero), an optional fraction and an optional exponent. The result
  is the mantissa, the decimal exponent and the text behind the number.
\<close>

definition lex_int :: "jsstring \<Rightarrow> (jsstring \<times> jsstring) option" where
  "lex_int s =
     (case s of
        [] \<Rightarrow> None
      | c # r \<Rightarrow>
          if c = 0x30 then Some ([c], r)
          else if is_digit c then Some (takeWhile is_digit s, dropWhile is_digit s)
          else None)"

definition lex_fraction :: "jsstring \<Rightarrow> (jsstring \<times> jsstring) option" where
  "lex_fraction s =
     (case s of
        [] \<Rightarrow> Some ([], s)
      | c # r \<Rightarrow>
          if c \<noteq> 0x2E then Some ([], s)
          else if takeWhile is_digit r = [] then None
          else Some (takeWhile is_digit r, dropWhile is_digit r))"

definition lex_exponent :: "jsstring \<Rightarrow> (int \<times> jsstring) option" where
  "lex_exponent s =
     (case s of
        [] \<Rightarrow> Some (0, s)
      | c # r \<Rightarrow>
          if c \<noteq> 0x65 \<and> c \<noteq> 0x45 then Some (0, s)
          else
            (let negative = (case r of x # _ \<Rightarrow> x = 0x2D | [] \<Rightarrow> False);
                 r' = (case r of x # t \<Rightarrow> if x = 0x2B \<or> x = 0x2D then t else r | [] \<Rightarrow> r)
             in if takeWhile is_digit r' = [] then None
                else Some ((if negative then - 1 else 1) * digits_value (takeWhile is_digit r'),
                           dropWhile is_digit r')))"

definition lex_number :: "jsstring \<Rightarrow> ((int \<times> int) \<times> jsstring) option" where
  "lex_number s =
     (let negative = (case s of c # _ \<Rightarrow> c = 0x2D | [] \<Rightarrow> False);
          s1 = (if negative then drop 1 s else s)
      in case lex_int s1 of
           None \<Rightarrow> None
         | Some (ip, s2) \<Rightarrow>
             (case lex_fraction s2 of
                None \<Rightarrow> None
              | Some (fp, s3) \<Rightarrow>
                  (case lex_exponent s3 of
                     None \<Rightarrow> None
                   | Some (ex, s4) \<Rightarrow>
                       Some (((if negative then - 1 else 1) * digits_value (ip @ fp),
                              ex - int (length fp)), s4))))"

definition punctuator :: "16 word \<Rightarrow> token option" where
  "punctuator c =
     (if c = 0x7B then Some TLBrace
      else if c = 0x7D then Some TRBrace
      else if c = 0x5B then Some TLBrack
      else if c = 0x5D then Some TRBrack
      else if c = 0x3A then Some TColon
      else if c = 0x2C then Some TComma
      else None)"

definition lex_literal :: "jsstring \<Rightarrow> (token \<times> jsstring) option" where
  "lex_literal s =
     (if take 4 s = js ''null'' then Some (TNull, drop 4 s)
      else if take 4 s = js ''true'' then Some (TTrue, drop 4 s)
      else if take 5 s = js ''false'' then Some (TFalse, drop 5 s)
      else None)"

text \<open>The token at the head of a text that does not start with white space.\<close>

definition lex_token :: "jsstring \<Rightarrow> (token \<times> jsstring) option" where
  "lex_token s =
     (case s of
        [] \<Rightarrow> None
      | c # cs \<Rightarrow>
          (case punctuator c of
             Some t \<Rightarrow> Some (t, cs)
           | None \<Rightarrow>
               if c = 0x22 then map_option (\<lambda>(str, rest). (TStr str, rest)) (lex_string [] cs)
               else if c = 0x2D \<or> is_digit c
               then map_option (\<lambda>((m, e), rest). (TNum m e, rest)) (lex_number s)
               else lex_literal s))"

definition JSON_whitespace :: "16 word \<Rightarrow> bool" where
  "JSON_whitespace c = (c = 0x20 \<or> c = 0x09 \<or> c = 0x0A \<or> c = 0x0D)"

function lex :: "jsstring \<Rightarrow> token list option" where
  "lex [] = Some []"
| "lex (c # cs) =
     (if JSON_whitespace c then lex cs
      else
        (case lex_token (c # cs) of
           None \<Rightarrow> None
         | Some (t, rest) \<Rightarrow>
             if length rest < length (c # cs) then map_option (Cons t) (lex rest) else None))"
  by pat_completeness auto
termination
  by (relation "measure length") auto

text \<open>
  The value at the head of a token list, and the tokens behind it. \<open>parse_elements\<close>
  reads the elements of an array behind its opening bracket, \<open>parse_members\<close> the members
  of an object behind its opening brace; both start at an element or member, with those
  read so far in \<open>acc\<close>. A repeated key of an object assigns to the same property.
\<close>

function parse_value :: "token list \<Rightarrow> (json \<times> token list) option"
  and parse_elements :: "json list \<Rightarrow> token list \<Rightarrow> (json \<times> token list) option"
  and parse_members :: "(jsstring \<times> json) list \<Rightarrow> token list \<Rightarrow> (json \<times> token list) option"
where
  "parse_value [] = None"
| "parse_value (t # ts) =
     (case t of
        TNull \<Rightarrow> Some (JNull, ts)
      | TTrue \<Rightarrow> Some (JBool True, ts)
      | TFalse \<Rightarrow> Some (JBool False, ts)
      | TStr s \<Rightarrow> Some (JStr s, ts)
      | TNum m e \<Rightarrow> Some (JNum m e, ts)
      | TLBrack \<Rightarrow>
          (case ts of
             TRBrack # r \<Rightarrow> Some (JArr [], r)
           | _ \<Rightarrow> parse_elements [] ts)
      | TLBrace \<Rightarrow>
          (case ts of
             TRBrace # r \<Rightarrow> Some (JObj [], r)
           | _ \<Rightarrow> parse_members [] ts)
      | _ \<Rightarrow> None)"
| "parse_elements acc ts =
     (case parse_value ts of
        None \<Rightarrow> None
      | Some (v, r) \<Rightarrow>
          (case r of
             TComma # r' \<Rightarrow> if length r' < length ts then parse_elements (acc @ [v]) r' else None
           | TRBrack # r' \<Rightarrow> Some (JArr (acc @ [v]), r')
           | _ \<Rightarrow> None))"
| "parse_members acc [] = None"
| "parse_members acc [t] = None"
| "parse_members acc (t # t' # ts) =
     (case (t, t') of
        (TStr k, TColon) \<Rightarrow>
          (case parse_value ts of
             None \<Rightarrow> None
           | Some (v, r) \<Rightarrow>
               (case r of
                  TComma # r' \<Rightarrow>
                    if length r' < length ts then parse_members (obj_set acc k v) r' else None
                | TRBrace # r' \<Rightarrow> Some (JObj (obj_set acc k v), r')
                | _ \<Rightarrow> None))
      | _ \<Rightarrow> None)"
  by pat_completeness auto
termination
  by (relation "measure (\<lambda>x. case x of
          Inl ts \<Rightarrow> 2 * length ts
        | Inr (Inl (acc, ts)) \<Rightarrow> 2 * length ts + 1
        | Inr (Inr (acc, ts)) \<Rightarrow> 2 * length ts + 1)") auto

declare parse_elements.simps [simp del]

definition JSON_parse :: "jsstring \<Rightarrow> json option" where
  "JSON_parse text =
     (case lex text of
        None \<Rightarrow> None
      | Some ts \<Rightarrow>
          (case parse_value ts of
             Some (v, []) \<Rightarrow> Some v
           | _ \<Rightarrow> None))"

section \<open>The program\<close>

text \<open>
  A run of the program is the list of its effects, in the order in which it performs
  them. \<^verbatim>\<open>process.exit\<close> ends the process, so that nothing follows an \<open>Exit\<close>; an
  exception that nothing in the program catches ends the function that raised it
  (\<open>Uncaught\<close>), and what the runtime then does with the process is not an effect of the
  program.
\<close>

datatype level = Info | Error

datatype exn = SyntaxError | TypeError

datatype transport = Http | Https

text \<open>
  The second argument of a call of the logger. \<open>LRequestHeaders\<close> stands for
  \<^verbatim>\<open>request._headers\<close>, the headers that the http module and the signing function
  of the library have set on the request.
\<close>

datatype logval =
    LNum nat
  | LJson json
  | LHeaders "(jsstring \<times> jsstring) list"
  | LRequestHeaders

text \<open>The object \<^verbatim>\<open>options\<close> of \<^verbatim>\<open>_listMetrics\<close>.\<close>

record options =
  opt_host :: "jsstring option"
  opt_port :: "jsstring option"
  opt_method :: jsstring
  opt_path :: jsstring
  opt_headers :: "(jsstring \<times> jsstring) list"
  opt_rejectUnauthorized :: bool

datatype event =
    Log level jsstring "(jsstring \<times> logval) list"
  | OutputHelp
  | Exit nat
  | TransportRequest transport options
  | GenerateV4Headers jsstring "jsstring option" "jsstring option" jsstring
  | RequestWrite jsstring
  | RequestEnd
  | StdoutWrite jsstring
  | Uncaught exn

subsection \<open>_listMetrics\<close>

text \<open>
  Lines 64 and 65: the object that is written as the body of the request. The numbers of
  \<open>timeRange\<close> are integers.
\<close>

definition requestObj :: "bool \<Rightarrow> jsstring \<Rightarrow> jsstring list \<Rightarrow> int list \<Rightarrow> (jsstring \<times> json) list" where
  "requestObj recent metric metricType timeRange =
     obj_set (if recent then [] else [(js ''timeRange'', JArr (map (\<lambda>n. JNum n 0) timeRange))])
       metric (JArr (map JStr metricType))"

text \<open>Line 21: the name of the action.\<close>

definition listAction :: "bool \<Rightarrow> jsstring" where
  "listAction recent = (if recent then js ''ListRecentMetrics'' else js ''ListMetrics'')"

text \<open>
  \<^verbatim>\<open>_listMetrics\<close>, up to \<^verbatim>\<open>request.end()\<close>. The name of the function cannot start
  with an underscore here.
\<close>

definition listMetrics_internal ::
  "jsstring option \<Rightarrow> jsstring option \<Rightarrow> jsstring \<Rightarrow> jsstring list \<Rightarrow> int list \<Rightarrow>
   jsstring option \<Rightarrow> jsstring option \<Rightarrow> bool \<Rightarrow> bool \<Rightarrow> bool \<Rightarrow> event list" where
  "listMetrics_internal host port metric metricType timeRange accessKey secretKey
       verbose recent ssl =
     (let options = \<lparr>opt_host = host, opt_port = port, opt_method = js ''POST'',
                     opt_path = js ''/'' @ metric @ js ''?Action='' @ listAction recent,
                     opt_headers = [(js ''content-type'', js ''application/json''),
                                    (js ''cache-control'', js ''no-cache'')],
                     opt_rejectUnauthorized = False\<rparr>;
          transport = (if ssl then Https else Http)
      in [TransportRequest transport options,
          GenerateV4Headers [] accessKey secretKey (js ''s3'')]
         @ (if verbose then [Log Info (js ''request headers'') [(js ''headers'', LRequestHeaders)]]
            else [])
         @ [RequestWrite (JSON_stringify (JObj (requestObj recent metric metricType timeRange))),
            RequestEnd])"

text \<open>
  The callback of the request, from the arrival of the response to the end of its body:
  \<open>res_chunks\<close> are the chunks of the body that the \<^verbatim>\<open>data\<close> events deliver.
\<close>

record response =
  res_statusCode :: nat
  res_headers :: "(jsstring \<times> jsstring) list"
  res_chunks :: "jsstring list"

text \<open>Lines 44 to 57: the handler of the \<^verbatim>\<open>end\<close> event of the response.\<close>

definition response_end :: "response \<Rightarrow> event list" where
  "response_end response =
     (case JSON_parse (concat (res_chunks response)) of
        None \<Rightarrow> [Uncaught SyntaxError]
      | Some responseBody \<Rightarrow>
          if res_statusCode response \<ge> 200 \<and> res_statusCode response < 300
          then [StdoutWrite (JSON_stringify_indent2 responseBody), StdoutWrite [0x0A], Exit 0]
          else [Log Error (js ''request failed with HTTP Status '')
                  [(js ''statusCode'', LNum (res_statusCode response)),
                   (js ''body'', LJson responseBody)],
                Exit 1])"

definition response_callback :: "bool \<Rightarrow> response \<Rightarrow> event list" where
  "response_callback verbose response =
     (if verbose
      then [Log Info (js ''response status code'')
              [(js ''statusCode'', LNum (res_statusCode response))],
            Log Info (js ''response headers'') [(js ''headers'', LHeaders (res_headers response))]]
      else [])
     @ response_end response"

subsection \<open>listMetrics\<close>

text \<open>
  The options as \<^verbatim>\<open>commander\<close> holds them after \<^verbatim>\<open>parse(process.argv)\<close>: an option
  with an argument is a string (the empty string for \<^verbatim>\<open>-e ''\<close>), or \<^verbatim>\<open>undefined\<close> when
  it is not given; a flag is true or \<^verbatim>\<open>undefined\<close>. In the old style the options
  \<^verbatim>\<open>metric\<close> and \<^verbatim>\<open>accounts\<close> are not declared, and the function does not read them.
\<close>

record commander =
  cmd_host :: "jsstring option"
  cmd_port :: "jsstring option"
  cmd_accessKey :: "jsstring option"
  cmd_secretKey :: "jsstring option"
  cmd_metric :: "jsstring option"
  cmd_buckets :: "jsstring option"
  cmd_accounts :: "jsstring option"
  cmd_start :: "jsstring option"
  cmd_end :: "jsstring option"
  cmd_verbose :: bool
  cmd_recent :: bool
  cmd_ssl :: bool

text \<open>The arguments of the call of \<^verbatim>\<open>_listMetrics\<close> on line 165.\<close>

record call =
  arg_host :: "jsstring option"
  arg_port :: "jsstring option"
  arg_metric :: jsstring
  arg_metricType :: "jsstring list"
  arg_timeRange :: "int list"
  arg_accessKey :: "jsstring option"
  arg_secretKey :: "jsstring option"
  arg_verbose :: bool
  arg_recent :: bool
  arg_ssl :: bool

text \<open>\<^verbatim>\<open>logger.error(msg); commander.outputHelp(); process.exit(1);\<close>\<close>

definition fail_with :: "jsstring \<Rightarrow> event list" where
  "fail_with msg = [Log Error msg [], OutputHelp, Exit 1]"

text \<open>\<^verbatim>\<open>commander[metric]\<close>, where \<open>metric\<close> is \<^verbatim>\<open>'buckets'\<close> or \<^verbatim>\<open>'accounts'\<close>.\<close>

definition commander_get :: "commander \<Rightarrow> jsstring \<Rightarrow> jsstring option" where
  "commander_get commander k =
     (if k = js ''buckets'' then cmd_buckets commander
      else if k = js ''accounts'' then cmd_accounts commander
      else None)"

text \<open>
  Line 125: the metric. In the new style the check of lines 116 to 121 has passed, so
  that \<^verbatim>\<open>commander.metric\<close> is a string; as a key and in a template,
  \<^verbatim>\<open>undefined\<close> would read "undefined".
\<close>

definition metric_of :: "jsstring option \<Rightarrow> commander \<Rightarrow> jsstring" where
  "metric_of metricType commander =
     (if metricType = Some (js ''buckets'') then js ''buckets''
      else (case cmd_metric commander of Some m \<Rightarrow> m | None \<Rightarrow> js ''undefined''))"

text \<open>
  The loop over \<^verbatim>\<open>Object.keys(requiredOptions)\<close>: the first option without a value.
\<close>

fun first_missing :: "(jsstring \<times> jsstring option) list \<Rightarrow> jsstring option" where
  "first_missing [] = None"
| "first_missing ((option, v) # r) = (if \<not> truthy v then Some option else first_missing r)"

definition requiredOptions :: "jsstring option \<Rightarrow> commander \<Rightarrow> jsstring \<Rightarrow> (jsstring \<times> jsstring option) list" where
  "requiredOptions metricType commander metric =
     (let r1 = [(js ''host'', cmd_host commander), (js ''port'', cmd_port commander),
                (js ''accessKey'', cmd_accessKey commander),
                (js ''secretKey'', cmd_secretKey commander)];
          r2 = (if metricType \<noteq> Some (js ''buckets'')
                then obj_set r1 (js ''metric'') (cmd_metric commander) else r1);
          r3 = obj_set r2 metric (commander_get commander metric)
      in if \<not> cmd_recent commander then obj_set r3 (js ''start'') (cmd_start commander) else r3)"

text \<open>
  Lines 140 to 161: the time range of the request, or the effects of the run that ends
  there.
\<close>

definition timeRange_of :: "commander \<Rightarrow> event list + int list" where
  "timeRange_of commander =
     (if cmd_recent commander then Inr []
      else
        (case parseInt10 (cmd_start commander) of
           None \<Rightarrow> Inl (fail_with (js ''start must be a number''))
         | Some numStart \<Rightarrow>
             if numStart = 0 then Inl (fail_with (js ''start must be a number''))
             else if truthy (cmd_end commander) then
               (case parseInt10 (cmd_end commander) of
                  None \<Rightarrow> Inl (fail_with (js ''end must be a number''))
                | Some numEnd \<Rightarrow>
                    if numEnd = 0 then Inl (fail_with (js ''end must be a number''))
                    else Inr [numStart, numEnd])
             else Inr [numStart]))"

text \<open>
  \<^verbatim>\<open>listMetrics\<close> up to its last line: the effects of a run that ends in
  \<^verbatim>\<open>process.exit\<close> (\<open>Inl\<close>), or the arguments with which \<^verbatim>\<open>_listMetrics\<close> is called
  (\<open>Inr\<close>). \<open>metricType\<close> is the argument of the function, \<^verbatim>\<open>'buckets'\<close> in the old
  style of listing. \<^verbatim>\<open>split\<close> on \<^verbatim>\<open>undefined\<close> would raise a \<^verbatim>\<open>TypeError\<close>; behind the
  loop over the required options that does not happen (\<open>listMetrics_call_Inl\<close> below).
\<close>

definition listMetrics_call :: "jsstring option \<Rightarrow> commander \<Rightarrow> event list + call" where
  "listMetrics_call metricType commander =
     (if metricType \<noteq> Some (js ''buckets'')
         \<and> cmd_metric commander \<noteq> Some (js ''buckets'')
         \<and> cmd_metric commander \<noteq> Some (js ''accounts'')
      then Inl (fail_with (js ''metric must be buckets or accounts''))
      else
        (let metric = metric_of metricType commander
         in case first_missing (requiredOptions metricType commander metric) of
              Some option \<Rightarrow> Inl (fail_with (js ''missing required option: '' @ option))
            | None \<Rightarrow>
                (case timeRange_of commander of
                   Inl events \<Rightarrow> Inl events
                 | Inr timeRange \<Rightarrow>
                     (case commander_get commander metric of
                        None \<Rightarrow> Inl [Uncaught TypeError]
                      | Some list \<Rightarrow>
                          Inr \<lparr>arg_host = cmd_host commander, arg_port = cmd_port commander,
                               arg_metric = metric,
                               arg_metricType = split_on comma list,
                               arg_timeRange = timeRange,
                               arg_accessKey = cmd_accessKey commander,
                               arg_secretKey = cmd_secretKey commander,
                               arg_verbose = cmd_verbose commander,
                               arg_recent = cmd_recent commander,
                               arg_ssl = cmd_ssl commander\<rparr>))))"

definition listMetrics :: "jsstring option \<Rightarrow> commander \<Rightarrow> event list" where
  "listMetrics metricType commander =
     (case listMetrics_call metricType commander of
        Inl events \<Rightarrow> events
      | Inr a \<Rightarrow>
          listMetrics_internal (arg_host a) (arg_port a) (arg_metric a) (arg_metricType a)
            (arg_timeRange a) (arg_accessKey a) (arg_secretKey a) (arg_verbose a)
            (arg_recent a) (arg_ssl a))"

subsection \<open>pushMetric\<close>

text \<open>
  A field of \<^verbatim>\<open>metricObj\<close> is absent (\<^verbatim>\<open>undefined\<close>), \<^verbatim>\<open>null\<close> or holds a value. The
  numbers are of any type \<open>'n\<close>: the function only passes them on. \<open>canonicalID\<close> is
  what \<^verbatim>\<open>getCanonicalID()\<close> returns, \<open>serializedUids\<close> what \<^verbatim>\<open>getSerializedUids()\<close>
  returns.
\<close>

datatype 'a jsval = Undefined | Null | Val 'a

record authInfo =
  canonicalID :: "jsstring jsval"

record logger =
  serializedUids :: jsstring

record 'n metricObj =
  bucket :: "jsstring jsval"
  authInfo :: "authInfo jsval"
  byteLength :: "'n jsval"
  newByteLength :: "'n jsval"
  oldByteLength :: "'n jsval"
  numberOfObjects :: "'n jsval"

text \<open>The object that is the third argument of \<^verbatim>\<open>utapi.pushMetric\<close>.\<close>

record 'n payload =
  push_bucket :: "jsstring jsval"
  push_accountId :: "jsstring jsval"
  push_byteLength :: "'n jsval"
  push_newByteLength :: "'n jsval"
  push_oldByteLength :: "'n jsval"
  push_numberOfObjects :: "'n jsval"

text \<open>
  \<open>utapi_pushMetric\<close> is the method of the client of the library, whose result the
  function returns. An object counts as true in a condition, \<^verbatim>\<open>undefined\<close> and
  \<^verbatim>\<open>null\<close> as false.
\<close>

definition pushMetric ::
  "(jsstring \<Rightarrow> jsstring \<Rightarrow> 'n payload \<Rightarrow> 'r) \<Rightarrow> jsstring \<Rightarrow> logger \<Rightarrow> 'n metricObj \<Rightarrow> 'r" where
  "pushMetric utapi_pushMetric action log metricObj =
     (let accountId = (case authInfo metricObj of
                         Val a \<Rightarrow> canonicalID a
                       | _ \<Rightarrow> Undefined)
      in utapi_pushMetric action (serializedUids log)
           \<lparr>push_bucket = bucket metricObj,
            push_accountId = accountId,
            push_byteLength = byteLength metricObj,
            push_newByteLength = newByteLength metricObj,
            push_oldByteLength = oldByteLength metricObj,
            push_numberOfObjects = numberOfObjects metricObj\<rparr>)"

subsection \<open>An example and the invariant of the specification\<close>

text \<open>
  An invocation in the old style, \<^verbatim>\<open>-b b1,b2 -s 100 -e 200\<close> with the host, the port
  and the keys, for the examples below.
\<close>

definition commander_example :: commander where
  "commander_example =
     \<lparr>cmd_host = Some (js ''localhost''), cmd_port = Some (js ''8100''),
      cmd_accessKey = Some (js ''accessKey1''), cmd_secretKey = Some (js ''verySecretKey1''),
      cmd_metric = None, cmd_buckets = Some (js ''b1,b2''), cmd_accounts = None,
      cmd_start = Some (js ''100''), cmd_end = Some (js ''200''),
      cmd_verbose = False, cmd_recent = False, cmd_ssl = False\<rparr>"


section \<open>Properties\<close>

subsection \<open>The tests on the length in JSON.parse never fail\<close>

text \<open>
  An escape sequence, a string, a number, a literal and so every token use up text, so
  that \<open>lex_string\<close> and \<open>lex\<close> are the functions without the tests.
\<close>

lemma lex_escape_shorter:
  "lex_escape s = Some (u, rest) \<Longrightarrow> length rest < length s"
  unfolding lex_escape_def
  by (cases s) (auto split: if_splits option.splits)

lemma lex_string_shorter:
  "lex_string acc s = Some (str, rest) \<Longrightarrow> length rest < length s"
proof (induction acc s rule: lex_string.induct)
  case (1 acc)
  then show ?case by simp
next
  case (2 acc c cs)
  show ?case
  proof (cases "c = 0x22")
    case True
    with 2 show ?thesis by simp
  next
    case quote: False
    show ?thesis
    proof (cases "c < 0x20")
      case True
      with 2 quote show ?thesis by simp
    next
      case ctl: False
      show ?thesis
      proof (cases "c = 0x5C")
        case False
        with 2 quote ctl have "length rest < length cs" by simp
        then show ?thesis by simp
      next
        case True
        with "2.prems" quote ctl obtain u r where e: "lex_escape cs = Some (u, r)"
          and g: "length r < length cs"
          and l: "lex_string (acc @ [u]) r = Some (str, rest)"
          by (auto split: option.splits if_splits)
        from "2.IH"(2) [OF quote ctl _ e refl g l] True have "length rest < length r" by simp
        with g show ?thesis by simp
      qed
    qed
  qed
qed

lemma lex_string_unguarded:
  "lex_string acc (c # cs) =
     (if c = 0x22 then Some (acc, cs)
      else if c < 0x20 then None
      else if c \<noteq> 0x5C then lex_string (acc @ [c]) cs
      else
        (case lex_escape cs of
           None \<Rightarrow> None
         | Some (u, rest) \<Rightarrow> lex_string (acc @ [u]) rest))"
  by (auto split: option.splits dest: lex_escape_shorter)

lemma dropWhile_le: "length (dropWhile P s) \<le> length s"
  by (rule length_dropWhile_le)

lemma lex_int_shorter: "lex_int s = Some (ip, rest) \<Longrightarrow> length rest < length s"
  unfolding lex_int_def
  by (cases s) (auto split: if_splits simp: less_Suc_eq_le dropWhile_le)

lemma lex_fraction_le: "lex_fraction s = Some (fp, rest) \<Longrightarrow> length rest \<le> length s"
  unfolding lex_fraction_def
  by (cases s) (auto split: if_splits simp: le_SucI dropWhile_le)

lemma lex_exponent_le: "lex_exponent s = Some (ex, rest) \<Longrightarrow> length rest \<le> length s"
proof (cases s)
  case Nil
  assume "lex_exponent s = Some (ex, rest)"
  with Nil show ?thesis by (simp add: lex_exponent_def)
next
  case (Cons c r)
  assume a: "lex_exponent s = Some (ex, rest)"
  define r' where "r' = (case r of x # t \<Rightarrow> if x = 0x2B \<or> x = 0x2D then t else r | [] \<Rightarrow> r)"
  have r': "length r' \<le> length r"
    by (cases r) (simp_all add: r'_def)
  from a Cons have "rest = s \<or> rest = dropWhile is_digit r'"
    by (auto simp: lex_exponent_def Let_def r'_def split: if_splits)
  moreover have "length (dropWhile is_digit r') \<le> length r'"
    by (rule dropWhile_le)
  ultimately show ?thesis using r' Cons by auto
qed

lemma lex_number_shorter:
  assumes "lex_number s = Some (r, rest)"
  shows "length rest < length s"
proof -
  define s1 where "s1 = (if (case s of c # _ \<Rightarrow> c = 0x2D | [] \<Rightarrow> False) then drop 1 s else s)"
  have s1: "length s1 \<le> length s"
    by (simp add: s1_def)
  from assms obtain ip s2 fp s3 ex where
    i: "lex_int s1 = Some (ip, s2)" and f: "lex_fraction s2 = Some (fp, s3)"
    and e: "lex_exponent s3 = Some (ex, rest)"
    by (auto simp: lex_number_def Let_def s1_def split: option.splits)
  from i have "length s2 < length s1" by (rule lex_int_shorter)
  moreover from f have "length s3 \<le> length s2" by (rule lex_fraction_le)
  moreover from e have "length rest \<le> length s3" by (rule lex_exponent_le)
  ultimately show ?thesis using s1 by simp
qed

lemma lex_literal_shorter:
  "lex_literal s = Some (t, rest) \<Longrightarrow> length rest < length s"
  by (cases s) (auto simp: lex_literal_def js_def split: if_splits)

lemma lex_token_shorter:
  assumes "lex_token s = Some (t, rest)"
  shows "length rest < length s"
proof (cases s)
  case Nil
  with assms show ?thesis by (simp add: lex_token_def)
next
  case (Cons c cs)
  show ?thesis
  proof (cases "punctuator c")
    case (Some p)
    with assms Cons show ?thesis by (simp add: lex_token_def)
  next
    case None
    with assms Cons consider
        (str) x where "lex_string [] cs = Some (x, rest)"
      | (num) y where "lex_number s = Some (y, rest)"
      | (lit) "lex_literal s = Some (t, rest)"
      by (auto simp: lex_token_def split: if_splits)
    then show ?thesis
    proof cases
      case str
      then have "length rest < length cs" by (rule lex_string_shorter)
      with Cons show ?thesis by simp
    next
      case num
      then show ?thesis by (rule lex_number_shorter)
    next
      case lit
      then show ?thesis by (rule lex_literal_shorter)
    qed
  qed
qed

lemma lex_unguarded:
  "lex (c # cs) =
     (if JSON_whitespace c then lex cs
      else
        (case lex_token (c # cs) of
           None \<Rightarrow> None
         | Some (t, rest) \<Rightarrow> map_option (Cons t) (lex rest)))"
  by (auto split: option.splits dest: lex_token_shorter)

text \<open>
  A value, the elements of an array and the members of an object all use up tokens, so
  that the tests on the length in \<open>parse_elements\<close> and \<open>parse_members\<close> never fail
  either.
\<close>

lemma parse_shorter_all:
  "(\<forall>v r. parse_value ts = Some (v, r) \<longrightarrow> length r < length ts)
   \<and> (\<forall>acc v r. parse_elements acc ts = Some (v, r) \<longrightarrow> length r < length ts)
   \<and> (\<forall>ps v r. parse_members ps ts = Some (v, r) \<longrightarrow> length r < length ts)"
proof (induction "length ts" arbitrary: ts rule: less_induct)
  case less
  have P: "length r < length ts" if pv: "parse_value ts = Some (v, r)" for v r
  proof (cases ts)
    case Nil
    with pv show ?thesis by simp
  next
    case (Cons t ts')
    note IH = less [of ts']
    show ?thesis
    proof (cases t)
      case TLBrack
      show ?thesis
      proof (cases "\<exists>r'. ts' = TRBrack # r'")
        case True
        with pv Cons TLBrack show ?thesis by auto
      next
        case False
        with pv Cons TLBrack have "parse_elements [] ts' = Some (v, r)"
          by (auto split: list.splits token.splits)
        with IH Cons have "length r < length ts'" by simp
        with Cons show ?thesis by simp
      qed
    next
      case TLBrace
      show ?thesis
      proof (cases "\<exists>r'. ts' = TRBrace # r'")
        case True
        with pv Cons TLBrace show ?thesis by auto
      next
        case False
        with pv Cons TLBrace have "parse_members [] ts' = Some (v, r)"
          by (auto split: list.splits token.splits)
        with IH Cons have "length r < length ts'" by simp
        with Cons show ?thesis by simp
      qed
    qed (use pv Cons in auto)
  qed
  have Q: "length r < length ts" if pe: "parse_elements acc ts = Some (v, r)" for acc v r
  proof -
    note pe' = pe [unfolded parse_elements.simps [of acc ts]]
    from pe' obtain v' r' where pv: "parse_value ts = Some (v', r')"
      by (auto split: option.splits)
    then have l: "length r' < length ts" by (rule P)
    from pe' pv consider
        (comma) r'' where "r' = TComma # r''" "length r'' < length ts"
          "parse_elements (acc @ [v']) r'' = Some (v, r)"
      | (close) "r' = TRBrack # r"
      by (auto split: list.splits token.splits if_splits)
    then show ?thesis
    proof cases
      case comma
      with less [of r''] have "length r < length r''" by simp
      with comma(2) show ?thesis by simp
    next
      case close
      with l show ?thesis by simp
    qed
  qed
  have R: "length r < length ts" if pm: "parse_members ps ts = Some (v, r)" for ps v r
  proof (cases ts)
    case Nil
    with pm show ?thesis by simp
  next
    case (Cons t ts1)
    show ?thesis
    proof (cases ts1)
      case Nil
      with pm Cons show ?thesis by simp
    next
      case c2: (Cons t' ts')
      from pm Cons c2 obtain k where t: "t = TStr k" "t' = TColon"
        by (auto split: token.splits)
      with pm Cons c2 obtain v' r' where pv: "parse_value ts' = Some (v', r')"
        by (auto split: option.splits)
      from less [of ts'] Cons c2 pv have l: "length r' < length ts'" by simp
      from pm Cons c2 t pv consider
          (comma) r'' where "r' = TComma # r''" "length r'' < length ts'"
            "parse_members (obj_set ps k v') r'' = Some (v, r)"
        | (close) "r' = TRBrace # r"
        by (auto split: list.splits token.splits if_splits)
      then show ?thesis
      proof cases
        case comma
        with less [of r''] Cons c2 have "length r < length r''" by simp
        with comma(2) Cons c2 show ?thesis by simp
      next
        case close
        with l Cons c2 show ?thesis by simp
      qed
    qed
  qed
  from P Q R show ?case by blast
qed

lemma parse_elements_unguarded:
  "parse_elements acc ts =
     (case parse_value ts of
        None \<Rightarrow> None
      | Some (v, r) \<Rightarrow>
          (case r of
             TComma # r' \<Rightarrow> parse_elements (acc @ [v]) r'
           | TRBrack # r' \<Rightarrow> Some (JArr (acc @ [v]), r')
           | _ \<Rightarrow> None))"
proof (cases "parse_value ts")
  case None
  then show ?thesis by (simp add: parse_elements.simps [of acc ts])
next
  case (Some p)
  obtain v r where p: "p = (v, r)" by (cases p)
  with Some parse_shorter_all [of ts] have "length r < length ts" by simp
  with Some p show ?thesis
    by (auto simp: parse_elements.simps [of acc ts] split: list.splits token.splits)
qed

lemma parse_members_unguarded:
  "parse_members ps (TStr k # TColon # ts) =
     (case parse_value ts of
        None \<Rightarrow> None
      | Some (v, r) \<Rightarrow>
          (case r of
             TComma # r' \<Rightarrow> parse_members (obj_set ps k v) r'
           | TRBrace # r' \<Rightarrow> Some (JObj (obj_set ps k v), r')
           | _ \<Rightarrow> None))"
proof (cases "parse_value ts")
  case None
  then show ?thesis by simp
next
  case (Some p)
  obtain v r where p: "p = (v, r)" by (cases p)
  with Some parse_shorter_all [of ts] have "length r < length ts" by simp
  with Some p show ?thesis
    by (auto split: list.splits token.splits)
qed

subsection \<open>Examples of the functions of the language\<close>

lemma parseInt10_examples:
  "parseInt10 (Some (js ''1476231300000'')) = Some 1476231300000"
  "parseInt10 (Some (js ''  -12abc'')) = Some (- 12)"
  "parseInt10 (Some (js ''+7'')) = Some 7"
  "parseInt10 (Some (js ''1e3'')) = Some 1"
  "parseInt10 (Some (js ''0x10'')) = Some 0"
  "parseInt10 (Some (js ''0'')) = Some 0"
  "parseInt10 (Some (js ''abc'')) = None"
  "parseInt10 (Some []) = None"
  "parseInt10 None = None"
  by (simp_all add: parseInt10_def js_def StrWhiteSpaceChar_def is_digit_def digits_value_def
      digit_val_def)

lemma Number_toString_examples:
  "Number_toString 1476231300123 0 = js ''1476231300123''"
  "Number_toString (- 25) (- 1) = js ''-2.5''"
  "Number_toString 1 21 = js ''1e+21''"
  "Number_toString 1 (- 7) = js ''1e-7''"
  "Number_toString 1500 (- 3) = js ''1.5''"
  by (simp_all add: Number_toString_def strip_zeros.simps digits10.simps js_def)

lemma JSON_parse_examples:
  \<open>JSON_parse (js '' [1, -2.5e3, "a/b", true, null, {"a": {}, "b": []}] '') =
     Some (JArr [JNum 1 0, JNum (- 25) 2, JStr (js ''a/b''), JBool True, JNull,
                 JObj [(js ''a'', JObj []), (js ''b'', JArr [])]])\<close>
  \<open>JSON_parse (js ''{"b":1,"a":2,"b":3,"7":4}'') =
     Some (JObj [(js ''7'', JNum 4 0), (js ''b'', JNum 3 0), (js ''a'', JNum 2 0)])\<close>
  \<open>JSON_parse (js ''"'' @ [0x5C] @ js ''u00e9'' @ [0x5C] @ js ''n"'') = Some (JStr [0xE9, 0x0A])\<close>
  \<open>JSON_parse (js ''01'') = None\<close>
  \<open>JSON_parse (js ''[1,]'') = None\<close>
  \<open>JSON_parse (js ''{"a":1,}'') = None\<close>
  \<open>JSON_parse (js ''nullx'') = None\<close>
  \<open>JSON_parse (js ''1 2'') = None\<close>
  \<open>JSON_parse (js ''.5'') = None\<close>
  \<open>JSON_parse (js ''"a'') = None\<close>
  by code_simp+

lemma JSON_stringify_indent2_example:
  \<open>JSON_stringify_indent2
     (JObj [(js ''a'', JArr [JNum 1 0, JObj [(js ''b'', JArr [])]]), (js ''c'', JObj [])]) =
   js ''{'' @ [0x0A] @
   js ''  "a": ['' @ [0x0A] @
   js ''    1,'' @ [0x0A] @
   js ''    {'' @ [0x0A] @
   js ''      "b": []'' @ [0x0A] @
   js ''    }'' @ [0x0A] @
   js ''  ],'' @ [0x0A] @
   js ''  "c": {}'' @ [0x0A] @
   js ''}''\<close>
  by code_simp

subsection \<open>The list of resources\<close>

lemma split_from_nonempty: "split_from sep seg s \<noteq> []"
  by (induction s arbitrary: seg) auto

lemma join_Cons: "xs \<noteq> [] \<Longrightarrow> join sep (x # xs) = x @ sep @ join sep xs"
  by (cases xs) auto

lemma length_split_from: "length (split_from sep seg s) = count_list s sep + 1"
  by (induction s arbitrary: seg) auto

lemma join_split_from: "join [sep] (split_from sep seg s) = seg @ s"
  by (induction s arbitrary: seg) (auto simp: join_Cons split_from_nonempty)

lemma split_from_segments:
  "sep \<notin> set seg \<Longrightarrow> list_all (\<lambda>x. sep \<notin> set x) (split_from sep seg s)"
  by (induction s arbitrary: seg) auto

text \<open>
  C6. For every string \<open>s\<close>, \<^verbatim>\<open>s.split(',')\<close> has one element more than \<open>s\<close> has commas;
  joining the elements with commas gives \<open>s\<close> back, so the segments stand in their order
  and the empty ones are kept; no segment holds a comma. \<^verbatim>\<open>"a,,b"\<close> gives
  \<^verbatim>\<open>["a", "", "b"]\<close>. This list is the list of resources that \<^verbatim>\<open>listMetrics\<close> passes
  on (\<open>listMetrics_call_Inr\<close> below).
\<close>

theorem split_on_comma:
  "length (split_on comma s) = count_list s comma + 1
   \<and> join [comma] (split_on comma s) = s
   \<and> list_all (\<lambda>seg. comma \<notin> set seg) (split_on comma s)
   \<and> split_on comma (js ''a,,b'') = [js ''a'', js '''', js ''b'']"
  by (simp add: split_on_def length_split_from join_split_from split_from_segments js_def comma_def)

subsection \<open>The body of a request\<close>

lemma body_buckets:
  \<open>JSON_stringify (JObj (requestObj False (js ''buckets'') [js ''b1'', js ''b2''] [100, 200])) =
     js ''{"timeRange":[100,200],"buckets":["b1","b2"]}''\<close>
  by code_simp

text \<open>
  C2, as it is stated, fails: the body of the request for the metric \<^verbatim>\<open>buckets\<close>, the
  resources \<^verbatim>\<open>b1\<close> and \<^verbatim>\<open>b2\<close> and the time range \<^verbatim>\<open>[100, 200]\<close> is not the string
  that starts with the key \<^verbatim>\<open>buckets\<close>.
\<close>

theorem request_body_buckets_first_counterexample:
  \<open>RequestWrite (js ''{"buckets":["b1","b2"],"timeRange":[100,200]}'')
     \<notin> set (listMetrics_internal (Some (js ''localhost'')) (Some (js ''8100'')) (js ''buckets'')
         [js ''b1'', js ''b2''] [100, 200] (Some (js ''accessKey1'')) (Some (js ''verySecretKey1''))
         False False False)\<close>
  by (simp add: listMetrics_internal_def body_buckets) (simp add: js_def)

text \<open>
  C2, amended. Whatever the host, the port, the keys and the flags \<^verbatim>\<open>verbose\<close> and
  \<^verbatim>\<open>ssl\<close> are, \<^verbatim>\<open>_listMetrics\<close> called with the metric \<^verbatim>\<open>buckets\<close>, the resources \<^verbatim>\<open>b1\<close>
  and \<^verbatim>\<open>b2\<close>, the time range \<^verbatim>\<open>[100, 200]\<close> and \<^verbatim>\<open>recent\<close> false writes one body,
  the string \<^verbatim>\<open>{"timeRange":[100,200],"buckets":["b1","b2"]}\<close>: the key \<^verbatim>\<open>timeRange\<close>
  is created first.
\<close>

theorem request_body_timeRange_first:
  \<open>[b. RequestWrite b \<leftarrow> listMetrics_internal host port (js ''buckets'') [js ''b1'', js ''b2'']
         [100, 200] accessKey secretKey verbose False ssl] =
     [js ''{"timeRange":[100,200],"buckets":["b1","b2"]}'']\<close>
  by (simp add: listMetrics_internal_def body_buckets)

subsection \<open>The request\<close>

text \<open>
  C8. Every call of \<^verbatim>\<open>_listMetrics\<close> constructs one request. Its method is \<^verbatim>\<open>POST\<close>;
  the name of the action is \<^verbatim>\<open>ListRecentMetrics\<close> when \<^verbatim>\<open>recent\<close> is true and
  \<^verbatim>\<open>ListMetrics\<close> otherwise, and the two names differ; the path is \<^verbatim>\<open>/\<close>, the metric,
  \<^verbatim>\<open>?Action=\<close> and the name of the action; among the headers, \<^verbatim>\<open>content-type\<close> is
  \<^verbatim>\<open>application/json\<close> and \<^verbatim>\<open>cache-control\<close> is \<^verbatim>\<open>no-cache\<close>.
\<close>

theorem request_options:
  "\<exists>transport options.
     [(t, opts). TransportRequest t opts \<leftarrow>
        listMetrics_internal host port metric metricType timeRange accessKey secretKey
          verbose recent ssl] = [(transport, options)]
     \<and> opt_method options = js ''POST''
     \<and> opt_path options = js ''/'' @ metric @ js ''?Action='' @ listAction recent
     \<and> listAction recent = (if recent then js ''ListRecentMetrics'' else js ''ListMetrics'')
     \<and> js ''ListRecentMetrics'' \<noteq> js ''ListMetrics''
     \<and> map_of (opt_headers options) (js ''content-type'') = Some (js ''application/json'')
     \<and> map_of (opt_headers options) (js ''cache-control'') = Some (js ''no-cache'')"
  by (simp add: listMetrics_internal_def listAction_def) (simp add: js_def)

subsection \<open>The payload of pushMetric\<close>

text \<open>
  C9. \<^verbatim>\<open>pushMetric\<close> returns the result of one call of \<^verbatim>\<open>utapi.pushMetric\<close>, with the
  action, the serialized identifiers of the logger and a payload. The \<^verbatim>\<open>accountId\<close> of
  the payload is what \<^verbatim>\<open>getCanonicalID()\<close> returns when \<^verbatim>\<open>metricObj\<close> has an
  \<^verbatim>\<open>authInfo\<close> object, and is \<^verbatim>\<open>undefined\<close> when it has none. The fields \<^verbatim>\<open>bucket\<close>,
  \<^verbatim>\<open>byteLength\<close>, \<^verbatim>\<open>newByteLength\<close>, \<^verbatim>\<open>oldByteLength\<close> and \<^verbatim>\<open>numberOfObjects\<close> of the
  payload are those of \<^verbatim>\<open>metricObj\<close>, an absent field staying absent.
\<close>

theorem pushMetric_payload:
  "\<exists>p. pushMetric utapi_pushMetric action log metricObj =
         utapi_pushMetric action (serializedUids log) p
     \<and> push_accountId p =
         (case authInfo metricObj of Val a \<Rightarrow> canonicalID a | Null \<Rightarrow> Undefined
          | Undefined \<Rightarrow> Undefined)
     \<and> push_bucket p = bucket metricObj
     \<and> push_byteLength p = byteLength metricObj
     \<and> push_newByteLength p = newByteLength metricObj
     \<and> push_oldByteLength p = oldByteLength metricObj
     \<and> push_numberOfObjects p = numberOfObjects metricObj"
proof -
  define p where "p = \<lparr>push_bucket = bucket metricObj,
      push_accountId = (case authInfo metricObj of Val a \<Rightarrow> canonicalID a | _ \<Rightarrow> Undefined),
      push_byteLength = byteLength metricObj, push_newByteLength = newByteLength metricObj,
      push_oldByteLength = oldByteLength metricObj,
      push_numberOfObjects = numberOfObjects metricObj\<rparr>"
  have "pushMetric utapi_pushMetric action log metricObj =
      utapi_pushMetric action (serializedUids log) p"
    by (simp add: pushMetric_def p_def)
  moreover have "push_accountId p =
      (case authInfo metricObj of Val a \<Rightarrow> canonicalID a | Null \<Rightarrow> Undefined
       | Undefined \<Rightarrow> Undefined)"
    by (cases "authInfo metricObj") (simp_all add: p_def)
  ultimately show ?thesis
    by (intro exI [of _ p]) (simp add: p_def)
qed

text \<open>
  The two events of the specification: without an identity the \<^verbatim>\<open>accountId\<close> of the
  payload stays \<^verbatim>\<open>undefined\<close>, as does the \<^verbatim>\<open>byteLength\<close> that the event does not have;
  with the identity \<^verbatim>\<open>ACCT123\<close> the payload has that \<^verbatim>\<open>accountId\<close>. The client here
  is the function that returns its payload.
\<close>

lemma pushMetric_examples:
  "pushMetric (\<lambda>action uids p. p) (js ''putObject'') \<lparr>serializedUids = js ''uid''\<rparr>
     \<lparr>bucket = Val (js ''b''), authInfo = Undefined, byteLength = Undefined,
      newByteLength = Val (12 :: nat), oldByteLength = Null, numberOfObjects = Val 1\<rparr>
   = \<lparr>push_bucket = Val (js ''b''), push_accountId = Undefined, push_byteLength = Undefined,
      push_newByteLength = Val 12, push_oldByteLength = Null, push_numberOfObjects = Val 1\<rparr>"
  "push_accountId (pushMetric (\<lambda>action uids p. p) (js ''putObject'') \<lparr>serializedUids = js ''uid''\<rparr>
     \<lparr>bucket = Val (js ''b''), authInfo = Val \<lparr>canonicalID = Val (js ''ACCT123'')\<rparr>,
      byteLength = Undefined, newByteLength = Val (12 :: nat), oldByteLength = Null,
      numberOfObjects = Val 1\<rparr>) = Val (js ''ACCT123'')"
  by (simp_all add: pushMetric_def)

subsection \<open>The response\<close>

text \<open>
  C10. \<^verbatim>\<open>JSON.parse\<close> runs before the status code is read: when the body of the response
  is not a JSON text, whatever the status code is, the handler of the \<^verbatim>\<open>end\<close> event only
  raises the \<^verbatim>\<open>SyntaxError\<close>, which nothing catches; it reaches neither the branch that
  writes the body nor the branch that logs the error and calls \<^verbatim>\<open>process.exit(1)\<close>.
\<close>

theorem response_not_JSON:
  "JSON_parse (concat (res_chunks response)) = None \<Longrightarrow>
     response_end response = [Uncaught SyntaxError]"
  by (simp add: response_end_def)

lemma parse_html: "JSON_parse (concat [js ''<html>'', js ''Bad Gateway</html>'']) = None"
  by code_simp

theorem response_not_JSON_witness:
  "JSON_parse (concat (res_chunks \<lparr>res_statusCode = 502, res_headers = [],
       res_chunks = [js ''<html>'', js ''Bad Gateway</html>'']\<rparr>)) = None
   \<and> response_end \<lparr>res_statusCode = 502, res_headers = [],
       res_chunks = [js ''<html>'', js ''Bad Gateway</html>'']\<rparr> = [Uncaught SyntaxError]"
  using response_not_JSON [of "\<lparr>res_statusCode = 502, res_headers = [],
       res_chunks = [js ''<html>'', js ''Bad Gateway</html>'']\<rparr>"] parse_html
  by simp








subsection \<open>The validation of the options\<close>

lemma obj_insert_append: "array_index k = None \<Longrightarrow> obj_insert k v obj = obj @ [(k, v)]"
  by (induction obj) auto

lemma obj_set_append:
  "array_index k = None \<Longrightarrow> k \<notin> set (map fst obj) \<Longrightarrow> obj_set obj k v = obj @ [(k, v)]"
  by (simp add: obj_set_def obj_insert_append)

lemma array_index_names:
  "array_index (js ''metric'') = None"
  "array_index (js ''buckets'') = None"
  "array_index (js ''accounts'') = None"
  "array_index (js ''start'') = None"
  by (simp_all add: array_index_def js_def is_digit_def)

lemma names_distinct:
  "js ''buckets'' \<noteq> js ''accounts''"
  "js ''buckets'' \<noteq> js ''timeRange''"
  "js ''accounts'' \<noteq> js ''timeRange''"
  "js ''metric'' \<notin> set [js ''host'', js ''port'', js ''accessKey'', js ''secretKey'']"
  "js ''buckets'' \<notin> set [js ''host'', js ''port'', js ''accessKey'', js ''secretKey'', js ''metric'']"
  "js ''accounts'' \<notin> set [js ''host'', js ''port'', js ''accessKey'', js ''secretKey'', js ''metric'']"
  "js ''start'' \<notin> set [js ''host'', js ''port'', js ''accessKey'', js ''secretKey'', js ''metric'',
       js ''buckets'', js ''accounts'']"
  by (simp_all add: js_def)

lemma requiredOptions_list:
  assumes "metric = js ''buckets'' \<or> metric = js ''accounts''"
  shows "requiredOptions metricType commander metric =
     [(js ''host'', cmd_host commander), (js ''port'', cmd_port commander),
      (js ''accessKey'', cmd_accessKey commander), (js ''secretKey'', cmd_secretKey commander)]
     @ (if metricType \<noteq> Some (js ''buckets'') then [(js ''metric'', cmd_metric commander)] else [])
     @ [(metric, commander_get commander metric)]
     @ (if \<not> cmd_recent commander then [(js ''start'', cmd_start commander)] else [])"
proof -
  let ?r1 = "[(js ''host'', cmd_host commander), (js ''port'', cmd_port commander),
      (js ''accessKey'', cmd_accessKey commander), (js ''secretKey'', cmd_secretKey commander)]"
  let ?r2 = "?r1 @ (if metricType \<noteq> Some (js ''buckets'') then [(js ''metric'', cmd_metric commander)] else [])"
  let ?r3 = "?r2 @ [(metric, commander_get commander metric)]"
  have m: "array_index metric = None"
    using assms array_index_names by auto
  have r2: "(if metricType \<noteq> Some (js ''buckets'')
             then obj_set ?r1 (js ''metric'') (cmd_metric commander) else ?r1) = ?r2"
    using names_distinct(4) by (simp add: obj_set_append array_index_names)
  have "metric \<notin> set (map fst ?r2)"
    using assms names_distinct(5,6) by auto
  with m have r3: "obj_set ?r2 metric (commander_get commander metric) = ?r3"
    by (rule obj_set_append)
  have "js ''start'' \<notin> set (map fst ?r3)"
    using assms names_distinct(7) by auto
  with array_index_names(4)
  have r4: "obj_set ?r3 (js ''start'') (cmd_start commander) = ?r3 @ [(js ''start'', cmd_start commander)]"
    by (rule obj_set_append)
  show ?thesis
    unfolding requiredOptions_def Let_def r2 r3 r4 by simp
qed

lemma metric_of_checked:
  assumes "\<not> (metricType \<noteq> Some (js ''buckets'')
         \<and> cmd_metric commander \<noteq> Some (js ''buckets'')
         \<and> cmd_metric commander \<noteq> Some (js ''accounts''))"
  shows "metric_of metricType commander = js ''buckets'' \<or> metric_of metricType commander = js ''accounts''"
  using assms by (auto simp: metric_of_def)

text \<open>
  C5. In the new style (\<open>metricType\<close> is not \<^verbatim>\<open>'buckets'\<close>), when the option \<^verbatim>\<open>metric\<close> is
  neither \<^verbatim>\<open>buckets\<close> nor \<^verbatim>\<open>accounts\<close> (or is not given), the run logs the error, shows
  the help and exits with the code 1, and does nothing else: no request is constructed.
\<close>

theorem listMetrics_rejects_metric:
  assumes "metricType \<noteq> Some (js ''buckets'')"
    and "cmd_metric commander \<noteq> Some (js ''buckets'')"
    and "cmd_metric commander \<noteq> Some (js ''accounts'')"
  shows "listMetrics metricType commander =
     [Log Error (js ''metric must be buckets or accounts'') [], OutputHelp, Exit 1]"
  using assms by (simp add: listMetrics_def listMetrics_call_def fail_with_def)

theorem listMetrics_rejects_metric_witness:
  "None \<noteq> Some (js ''buckets'')
   \<and> cmd_metric (commander_example\<lparr>cmd_metric := Some (js ''objects'')\<rparr>) \<noteq> Some (js ''buckets'')
   \<and> cmd_metric (commander_example\<lparr>cmd_metric := Some (js ''objects'')\<rparr>) \<noteq> Some (js ''accounts'')
   \<and> listMetrics None (commander_example\<lparr>cmd_metric := Some (js ''objects'')\<rparr>) =
     [Log Error (js ''metric must be buckets or accounts'') [], OutputHelp, Exit 1]"
  using listMetrics_rejects_metric [of None "commander_example\<lparr>cmd_metric := Some (js ''objects'')\<rparr>"]
  by (simp add: js_def)

lemma timeRange_of_start:
  "\<not> cmd_recent commander \<Longrightarrow> not_number (parseInt10 (cmd_start commander)) \<Longrightarrow>
     timeRange_of commander = Inl (fail_with (js ''start must be a number''))"
  by (simp add: timeRange_of_def not_number_def split: option.splits)

lemma timeRange_of_end:
  "\<not> cmd_recent commander \<Longrightarrow> \<not> not_number (parseInt10 (cmd_start commander)) \<Longrightarrow>
   truthy (cmd_end commander) \<Longrightarrow> not_number (parseInt10 (cmd_end commander)) \<Longrightarrow>
     timeRange_of commander = Inl (fail_with (js ''end must be a number''))"
  by (simp add: timeRange_of_def not_number_def split: option.splits)


text \<open>
  C4, amended. Without \<^verbatim>\<open>recent\<close>, when \<^verbatim>\<open>parseInt(start, 10)\<close> is \<^verbatim>\<open>NaN\<close> or zero, or
  when \<^verbatim>\<open>end\<close> is a string that is not empty and \<^verbatim>\<open>parseInt(end, 10)\<close> is \<^verbatim>\<open>NaN\<close> or
  zero, the run logs one error, shows the help and exits with the code 1, and does
  nothing else. The error names a field: the metric when it is refused, else the first
  required option without a value, else \<^verbatim>\<open>start\<close> when its number is refused, else
  \<^verbatim>\<open>end\<close>. To parse is to apply \<^verbatim>\<open>parseInt\<close>, which reads the digits at the head of the
  text.
\<close>

theorem listMetrics_rejects_time_range:
  assumes "\<not> cmd_recent commander"
    and "not_number (parseInt10 (cmd_start commander))
         \<or> (truthy (cmd_end commander) \<and> not_number (parseInt10 (cmd_end commander)))"
  shows "listMetrics metricType commander =
     [Log Error
        (if metricType \<noteq> Some (js ''buckets'') \<and> cmd_metric commander \<noteq> Some (js ''buckets'')
            \<and> cmd_metric commander \<noteq> Some (js ''accounts'')
         then js ''metric must be buckets or accounts''
         else
           (case first_missing
                   (requiredOptions metricType commander (metric_of metricType commander)) of
              Some option \<Rightarrow> js ''missing required option: '' @ option
            | None \<Rightarrow>
                if not_number (parseInt10 (cmd_start commander))
                then js ''start must be a number'' else js ''end must be a number'')) [],
      OutputHelp, Exit 1]"
proof (cases "metricType \<noteq> Some (js ''buckets'') \<and> cmd_metric commander \<noteq> Some (js ''buckets'')
    \<and> cmd_metric commander \<noteq> Some (js ''accounts'')")
  case True
  then show ?thesis
    by (simp add: listMetrics_def listMetrics_call_def fail_with_def)
next
  case metric: False
  show ?thesis
  proof (cases "first_missing (requiredOptions metricType commander (metric_of metricType commander))")
    case (Some option)
    with metric show ?thesis
      by (auto simp add: listMetrics_def listMetrics_call_def fail_with_def)
  next
    case None
    show ?thesis
    proof (cases "not_number (parseInt10 (cmd_start commander))")
      case True
      with assms(1) have "timeRange_of commander = Inl (fail_with (js ''start must be a number''))"
        by (rule timeRange_of_start)
      with metric None True show ?thesis
        by (auto simp add: listMetrics_def listMetrics_call_def fail_with_def)
    next
      case False
      with assms have "timeRange_of commander = Inl (fail_with (js ''end must be a number''))"
        by (simp add: timeRange_of_end)
      with metric None False show ?thesis
        by (auto simp add: listMetrics_def listMetrics_call_def fail_with_def)
    qed
  qed
qed

text \<open>
  A literal \<^verbatim>\<open>0\<close> is refused like a text without digits: \<^verbatim>\<open>-s 0\<close>, and \<^verbatim>\<open>-e 0\<close> behind a
  valid \<^verbatim>\<open>start\<close>.
\<close>

lemma start_zero:
  "not_number (parseInt10 (cmd_start (commander_example\<lparr>cmd_start := Some (js ''0'')\<rparr>)))"
  "first_missing (requiredOptions (Some (js ''buckets'')) (commander_example\<lparr>cmd_start := Some (js ''0'')\<rparr>)
     (metric_of (Some (js ''buckets'')) (commander_example\<lparr>cmd_start := Some (js ''0'')\<rparr>))) = None"
  by code_simp+

lemma end_zero:
  "\<not> not_number (parseInt10 (cmd_start (commander_example\<lparr>cmd_end := Some (js ''0'')\<rparr>)))"
  "truthy (cmd_end (commander_example\<lparr>cmd_end := Some (js ''0'')\<rparr>))"
  "not_number (parseInt10 (cmd_end (commander_example\<lparr>cmd_end := Some (js ''0'')\<rparr>)))"
  "first_missing (requiredOptions (Some (js ''buckets'')) (commander_example\<lparr>cmd_end := Some (js ''0'')\<rparr>)
     (metric_of (Some (js ''buckets'')) (commander_example\<lparr>cmd_end := Some (js ''0'')\<rparr>))) = None"
  by code_simp+

theorem listMetrics_rejects_time_range_witness:
  "\<not> cmd_recent (commander_example\<lparr>cmd_start := Some (js ''0'')\<rparr>)
   \<and> not_number (parseInt10 (cmd_start (commander_example\<lparr>cmd_start := Some (js ''0'')\<rparr>)))
   \<and> listMetrics (Some (js ''buckets'')) (commander_example\<lparr>cmd_start := Some (js ''0'')\<rparr>) =
       [Log Error (js ''start must be a number'') [], OutputHelp, Exit 1]
   \<and> \<not> cmd_recent (commander_example\<lparr>cmd_end := Some (js ''0'')\<rparr>)
   \<and> truthy (cmd_end (commander_example\<lparr>cmd_end := Some (js ''0'')\<rparr>))
   \<and> not_number (parseInt10 (cmd_end (commander_example\<lparr>cmd_end := Some (js ''0'')\<rparr>)))
   \<and> listMetrics (Some (js ''buckets'')) (commander_example\<lparr>cmd_end := Some (js ''0'')\<rparr>) =
       [Log Error (js ''end must be a number'') [], OutputHelp, Exit 1]"
  using
    listMetrics_rejects_time_range [of "commander_example\<lparr>cmd_start := Some (js ''0'')\<rparr>"
      "Some (js ''buckets'')"]
    listMetrics_rejects_time_range [of "commander_example\<lparr>cmd_end := Some (js ''0'')\<rparr>"
      "Some (js ''buckets'')"]
    start_zero end_zero
  by (simp add: commander_example_def)

text \<open>
  C4, as it is stated, fails where \<^verbatim>\<open>end\<close> is given as the empty string (\<^verbatim>\<open>-e ''\<close>): the
  option is given and \<^verbatim>\<open>parseInt\<close> finds no number in it, and the run does not exit with
  the code 1: the test \<^verbatim>\<open>if (end)\<close> takes the empty string for an option that is not
  given, and the request is sent with the time range \<^verbatim>\<open>[100]\<close>.
\<close>

theorem listMetrics_empty_end_counterexample:
  \<open>\<not> cmd_recent (commander_example\<lparr>cmd_end := Some []\<rparr>)
   \<and> cmd_end (commander_example\<lparr>cmd_end := Some []\<rparr>) = Some []
   \<and> parseInt10 (cmd_end (commander_example\<lparr>cmd_end := Some []\<rparr>)) = None
   \<and> listMetrics (Some (js ''buckets'')) (commander_example\<lparr>cmd_end := Some []\<rparr>) =
       [TransportRequest Http
          \<lparr>opt_host = Some (js ''localhost''), opt_port = Some (js ''8100''),
           opt_method = js ''POST'', opt_path = js ''/buckets?Action=ListMetrics'',
           opt_headers = [(js ''content-type'', js ''application/json''),
                          (js ''cache-control'', js ''no-cache'')],
           opt_rejectUnauthorized = False\<rparr>,
        GenerateV4Headers [] (Some (js ''accessKey1'')) (Some (js ''verySecretKey1'')) (js ''s3''),
        RequestWrite (js ''{"timeRange":[100],"buckets":["b1","b2"]}''),
        RequestEnd]
   \<and> Exit 1 \<notin> set (listMetrics (Some (js ''buckets'')) (commander_example\<lparr>cmd_end := Some []\<rparr>))\<close>
  by code_simp

lemma first_missing_None:
  "first_missing ps = None \<Longrightarrow> (k, v) \<in> set ps \<Longrightarrow> truthy v"
  by (induction ps rule: first_missing.induct) (auto split: if_splits)

text \<open>
  Behind the loop over the required options, \<^verbatim>\<open>commander[metric]\<close> is a string that is
  not empty, so that \<^verbatim>\<open>split\<close> is called on a string.
\<close>

lemma required_resources:
  assumes "metric = js ''buckets'' \<or> metric = js ''accounts''"
    and "first_missing (requiredOptions metricType commander metric) = None"
  shows "\<exists>list. commander_get commander metric = Some list \<and> list \<noteq> []"
proof -
  have "(metric, commander_get commander metric) \<in> set (requiredOptions metricType commander metric)"
    by (simp add: requiredOptions_list [OF assms(1)])
  with assms(2) have "truthy (commander_get commander metric)"
    by (rule first_missing_None)
  then show ?thesis
    by (cases "commander_get commander metric") (simp_all add: truthy_def)
qed

lemma listMetrics_call_checked:
  assumes "\<not> (metricType \<noteq> Some (js ''buckets'')
      \<and> cmd_metric commander \<noteq> Some (js ''buckets'')
      \<and> cmd_metric commander \<noteq> Some (js ''accounts''))"
  shows "listMetrics_call metricType commander =
     (case first_missing (requiredOptions metricType commander (metric_of metricType commander)) of
        Some option \<Rightarrow> Inl (fail_with (js ''missing required option: '' @ option))
      | None \<Rightarrow>
          (case timeRange_of commander of
             Inl events \<Rightarrow> Inl events
           | Inr timeRange \<Rightarrow>
               (case commander_get commander (metric_of metricType commander) of
                  None \<Rightarrow> Inl [Uncaught TypeError]
                | Some list \<Rightarrow>
                    Inr \<lparr>arg_host = cmd_host commander, arg_port = cmd_port commander,
                         arg_metric = metric_of metricType commander,
                         arg_metricType = split_on comma list,
                         arg_timeRange = timeRange,
                         arg_accessKey = cmd_accessKey commander,
                         arg_secretKey = cmd_secretKey commander,
                         arg_verbose = cmd_verbose commander,
                         arg_recent = cmd_recent commander,
                         arg_ssl = cmd_ssl commander\<rparr>)))"
  using assms unfolding listMetrics_call_def Let_def by auto

lemma listMetrics_call_Inl:
  assumes "listMetrics_call metricType commander = Inl events"
  shows "\<exists>msg. events = fail_with msg"
proof (cases "metricType \<noteq> Some (js ''buckets'') \<and> cmd_metric commander \<noteq> Some (js ''buckets'')
    \<and> cmd_metric commander \<noteq> Some (js ''accounts'')")
  case True
  with assms show ?thesis
    by (auto simp: listMetrics_call_def)
next
  case metric: False
  note call = listMetrics_call_checked [OF metric]
  from metric have m: "metric_of metricType commander = js ''buckets''
      \<or> metric_of metricType commander = js ''accounts''"
    by (rule metric_of_checked)
  show ?thesis
  proof (cases "first_missing (requiredOptions metricType commander (metric_of metricType commander))")
    case (Some option)
    with assms show ?thesis
      by (auto simp: call)
  next
    case None
    with m obtain list where l: "commander_get commander (metric_of metricType commander) = Some list"
      using required_resources by blast
    show ?thesis
    proof (cases "timeRange_of commander")
      case (Inl ev)
      then have "\<exists>msg. ev = fail_with msg"
        by (auto simp: timeRange_of_def split: if_splits option.splits)
      with None Inl assms show ?thesis
        by (auto simp: call)
    next
      case (Inr tr)
      with None l assms show ?thesis
        by (auto simp: call)
    qed
  qed
qed

lemma listMetrics_call_Inr:
  assumes "listMetrics_call metricType commander = Inr a"
  shows "arg_metric a = metric_of metricType commander"
    and "arg_metric a = js ''buckets'' \<or> arg_metric a = js ''accounts''"
    and "timeRange_of commander = Inr (arg_timeRange a)"
    and "\<exists>list. commander_get commander (arg_metric a) = Some list \<and> list \<noteq> []
            \<and> arg_metricType a = split_on comma list"
    and "arg_recent a = cmd_recent commander"
    and "arg_verbose a = cmd_verbose commander"
    and "arg_ssl a = cmd_ssl commander"
    and "arg_host a = cmd_host commander"
    and "arg_port a = cmd_port commander"
    and "arg_accessKey a = cmd_accessKey commander"
    and "arg_secretKey a = cmd_secretKey commander"
    and "first_missing (requiredOptions metricType commander (metric_of metricType commander)) = None"
proof -
  from assms have metric: "\<not> (metricType \<noteq> Some (js ''buckets'')
      \<and> cmd_metric commander \<noteq> Some (js ''buckets'')
      \<and> cmd_metric commander \<noteq> Some (js ''accounts''))"
    by (auto simp: listMetrics_call_def split: if_splits)
  note call = listMetrics_call_checked [OF metric]
  from metric have m: "metric_of metricType commander = js ''buckets''
      \<or> metric_of metricType commander = js ''accounts''"
    by (rule metric_of_checked)
  from assms show none:
    "first_missing (requiredOptions metricType commander (metric_of metricType commander)) = None"
    by (auto simp: call split: option.splits)
  with m obtain list where l: "commander_get commander (metric_of metricType commander) = Some list"
    and ne: "list \<noteq> []"
    using required_resources by blast
  from assms none l obtain tr where tr: "timeRange_of commander = Inr tr"
    by (cases "timeRange_of commander") (auto simp: call)
  from assms none l tr have a: "a = \<lparr>arg_host = cmd_host commander,
      arg_port = cmd_port commander, arg_metric = metric_of metricType commander,
      arg_metricType = split_on comma list, arg_timeRange = tr,
      arg_accessKey = cmd_accessKey commander, arg_secretKey = cmd_secretKey commander,
      arg_verbose = cmd_verbose commander, arg_recent = cmd_recent commander,
      arg_ssl = cmd_ssl commander\<rparr>"
    by (auto simp: call)
  from a show "arg_metric a = metric_of metricType commander" by simp
  with m show "arg_metric a = js ''buckets'' \<or> arg_metric a = js ''accounts''" by simp
  from a tr show "timeRange_of commander = Inr (arg_timeRange a)" by simp
  from a l ne show "\<exists>list. commander_get commander (arg_metric a) = Some list \<and> list \<noteq> []
      \<and> arg_metricType a = split_on comma list" by simp
  from a show "arg_recent a = cmd_recent commander" "arg_verbose a = cmd_verbose commander"
    "arg_ssl a = cmd_ssl commander" "arg_host a = cmd_host commander"
    "arg_port a = cmd_port commander" "arg_accessKey a = cmd_accessKey commander"
    "arg_secretKey a = cmd_secretKey commander"
    by simp_all
qed





lemma quote_metric:
  \<open>JSON_quote (js ''buckets'') = js ''"buckets"''\<close>
  \<open>JSON_quote (js ''accounts'') = js ''"accounts"''\<close>
  by code_simp+

lemma requestObj_recent:
  "requestObj True metric metricType timeRange = [(metric, JArr (map JStr metricType))]"
  by (simp add: requestObj_def obj_set_def)

lemma recent_body:
  assumes "metric = js ''buckets'' \<or> metric = js ''accounts''"
  shows \<open>JSON_stringify (JObj (requestObj True metric metricType timeRange)) =
     js ''{"'' @ metric @ js ''":'' @ JSON_stringify (JArr (map JStr metricType)) @ js ''}''\<close>
  using assms
  by (auto simp: requestObj_recent JSON_stringify_def quote_metric) (simp_all add: js_def)

lemma metric_of_update:
  "metric_of metricType (commander\<lparr>cmd_start := start, cmd_end := end'\<rparr>) =
     metric_of metricType commander"
  by (simp add: metric_of_def)

lemma commander_get_update:
  "commander_get (commander\<lparr>cmd_start := start, cmd_end := end'\<rparr>) k = commander_get commander k"
  by (simp add: commander_get_def)

lemma requiredOptions_update:
  "cmd_recent commander \<Longrightarrow>
     requiredOptions metricType (commander\<lparr>cmd_start := start, cmd_end := end'\<rparr>) k =
     requiredOptions metricType commander k"
  by (simp add: requiredOptions_def Let_def commander_get_update)

lemma timeRange_of_update:
  "cmd_recent commander \<Longrightarrow>
     timeRange_of (commander\<lparr>cmd_start := start, cmd_end := end'\<rparr>) = timeRange_of commander"
  by (simp add: timeRange_of_def)

lemma listMetrics_recent_ignores:
  assumes "cmd_recent commander"
  shows "listMetrics metricType (commander\<lparr>cmd_start := start, cmd_end := end'\<rparr>) =
     listMetrics metricType commander"
proof -
  have "listMetrics_call metricType (commander\<lparr>cmd_start := start, cmd_end := end'\<rparr>) =
      listMetrics_call metricType commander"
    unfolding listMetrics_call_def
    by (simp add: Let_def metric_of_update commander_get_update requiredOptions_update [OF assms]
        timeRange_of_update [OF assms] cong: option.case_cong sum.case_cong)
  then show ?thesis
    by (simp add: listMetrics_def)
qed

text \<open>
  C1. With \<^verbatim>\<open>recent\<close>, the options \<^verbatim>\<open>start\<close> and \<^verbatim>\<open>end\<close> have no effect on the run, whatever
  they hold; and every body that the run writes to the transport is the text of an
  object with one key, the metric \<^verbatim>\<open>buckets\<close> or \<^verbatim>\<open>accounts\<close>, whose value is the list
  of the resources: it has no key \<^verbatim>\<open>timeRange\<close>.
\<close>

theorem listMetrics_recent_no_timeRange:
  assumes "cmd_recent commander"
  shows \<open>listMetrics metricType (commander\<lparr>cmd_start := start, cmd_end := end'\<rparr>) =
       listMetrics metricType commander
     \<and> (\<forall>body. RequestWrite body \<in> set (listMetrics metricType commander) \<longrightarrow>
          (\<exists>metric resources.
             (metric = js ''buckets'' \<or> metric = js ''accounts'')
             \<and> body = JSON_stringify (JObj [(metric, JArr (map JStr resources))])
             \<and> body = js ''{"'' @ metric @ js ''":'' @ JSON_stringify (JArr (map JStr resources))
                      @ js ''}''))\<close>
proof (intro conjI allI impI)
  show "listMetrics metricType (commander\<lparr>cmd_start := start, cmd_end := end'\<rparr>) =
      listMetrics metricType commander"
    using assms by (rule listMetrics_recent_ignores)
next
  fix body
  assume w: "RequestWrite body \<in> set (listMetrics metricType commander)"
  show \<open>\<exists>metric resources.
      (metric = js ''buckets'' \<or> metric = js ''accounts'')
      \<and> body = JSON_stringify (JObj [(metric, JArr (map JStr resources))])
      \<and> body = js ''{"'' @ metric @ js ''":'' @ JSON_stringify (JArr (map JStr resources))
               @ js ''}''\<close>
  proof (cases "listMetrics_call metricType commander")
    case (Inl events)
    then obtain msg where "events = fail_with msg"
      using listMetrics_call_Inl by blast
    with w Inl show ?thesis
      by (simp add: listMetrics_def fail_with_def)
  next
    case (Inr a)
    note call = listMetrics_call_Inr [OF Inr]
    from call(5) assms have r: "arg_recent a" by simp
    from w Inr r have b: "body = JSON_stringify (JObj (requestObj True (arg_metric a)
        (arg_metricType a) (arg_timeRange a)))"
      by (auto simp: listMetrics_def listMetrics_internal_def)
    with call(2) show ?thesis
      using recent_body [OF call(2)] requestObj_recent by metis
  qed
qed

text \<open>The example invocation with \<^verbatim>\<open>--recent\<close>, and then with \<^verbatim>\<open>-s abc -e 0\<close>.\<close>

lemma recent_example:
  \<open>cmd_recent (commander_example\<lparr>cmd_recent := True\<rparr>)\<close>
  \<open>RequestWrite (js ''{"buckets":["b1","b2"]}'')
     \<in> set (listMetrics (Some (js ''buckets'')) (commander_example\<lparr>cmd_recent := True\<rparr>))\<close>
  by code_simp+

theorem listMetrics_recent_no_timeRange_witness:
  \<open>cmd_recent (commander_example\<lparr>cmd_recent := True\<rparr>)
   \<and> listMetrics (Some (js ''buckets''))
         (commander_example\<lparr>cmd_recent := True, cmd_start := Some (js ''abc''),
            cmd_end := Some (js ''0'')\<rparr>) =
       listMetrics (Some (js ''buckets'')) (commander_example\<lparr>cmd_recent := True\<rparr>)
   \<and> RequestWrite (js ''{"buckets":["b1","b2"]}'')
       \<in> set (listMetrics (Some (js ''buckets'')) (commander_example\<lparr>cmd_recent := True\<rparr>))
   \<and> (\<exists>metric resources.
         (metric = js ''buckets'' \<or> metric = js ''accounts'')
         \<and> js ''{"buckets":["b1","b2"]}'' = JSON_stringify (JObj [(metric, JArr (map JStr resources))]))\<close>
  using listMetrics_recent_no_timeRange
      [where commander = "commander_example\<lparr>cmd_recent := True\<rparr>"
        and metricType = "Some (js ''buckets'')" and start = "Some (js ''abc'')"
        and end' = "Some (js ''0'')"]
    recent_example
  by blast

end
